theory Spec2Isabelle
  imports Main "HOL-Library.AList" "HOL-Library.Multiset" "HOL-Library.Word"
begin

section \<open>Errors and outcomes\<close>

text \<open>
  Go's \<open>error\<close> interface is inhabited both by the SCIM errors of the repository's
  \<open>errors\<close> package and by the errors of the MongoDB driver. \<open>NotFound\<close> and
  \<open>PreConditionFailed\<close> carry the formatted detail message. A \<open>nil\<close> error is the
  absence of a value: functions returning \<open>(T, error)\<close> are modelled with the sum
  \<open>error + T\<close>, functions returning only \<open>error\<close> with \<open>error option\<close>.
\<close>

datatype error =
    NotFound string
  | PreConditionFailed string
  | ScimError string string
  | ErrNoDocuments
  | DuplicateKey
  | DriverError string

text \<open>A Go function either panics or returns.\<close>

datatype 'a outcome = Panicked string | Returned 'a

section \<open>Data of the MongoDB adapter (package mongo)\<close>

text \<open>
  An attribute of the \<open>spec\<close> package, as far as the adapter reads it: its id, its path
  and its sub-attributes.
\<close>

datatype Attribute =
  Attribute (attr_ID: string) (attr_Name: string) (attr_Path: string) (subAttributes: "Attribute list")

text \<open>
  A compiled path is a linked list of expression nodes; \<open>Next\<close> is \<open>nil\<close> at the end.
\<close>

datatype Expression = Expression (Token: string) (Next: "Expression option")

record metadata =
  MongoName :: string
  MongoPath :: string

datatype SortOrder = SortDefault | SortAsc | SortDesc | SortInvalid string

record Sort =
  By :: string
  Order :: SortOrder

text \<open>Go's \<open>int\<close> on the build target (linux/amd64) has 64 bits.\<close>

type_synonym int64 = "64 word"

record Pagination =
  StartIndex :: int64
  Count :: int64

record Projection =
  Attributes :: "string list"
  ExcludedAttributes :: "string list"

text \<open>
  A \<open>bson.D\<close> built by the adapter itself is an ordered list of \<open>bson.E{Key, Value}\<close>
  with integer values.
\<close>

type_synonym bson_D = "(string \<times> int) list"

record Resource =
  ID :: string
  Version :: string
  Location :: string
  properties :: "(string \<times> string) list"

text \<open>
  The receiver \<open>mongoDB\<close>. Besides the fields that the adapter reads
  (\<open>superAttr\<close>, the id of the resource type's schema, the option \<open>ignoreProjection\<close>),
  the record carries the functions of the repository that the adapter calls and whose
  code is not part of the sources at hand: \<open>expr.CompilePath\<close>, \<open>expr.CompileFilter\<close>,
  the transformer's \<open>transform\<close>, \<open>Attribute.SubAttributeForName\<close>, the package-level
  \<open>metadataHub\<close> and the unmarshaler's \<open>Decode\<close>; and \<open>strconv.Quote\<close> of the standard
  library. \<open>'ast\<close> is the type of compiled filters, \<open>'q\<close> that of the driver's queries.
  The pointers that the constructor \<open>DB\<close> stores (the options among them) are taken to be
  set, and a successful \<open>CompilePath\<close> to return a node. Logging does not influence any
  result and is left out.
\<close>

record ('ast, 'q) mongoDB =
  superAttr :: Attribute
  schema_ID :: string
  ignoreProjection :: bool
  CompilePath :: "string \<Rightarrow> error + Expression"
  CompileFilter :: "string \<Rightarrow> error + 'ast"
  transform :: "'ast \<Rightarrow> error + 'q"
  SubAttributeForName :: "Attribute \<Rightarrow> string \<Rightarrow> Attribute option"
  metadataHub :: "string \<rightharpoonup> metadata"
  Decode :: "Resource \<Rightarrow> error + Resource"
  Quote :: "string \<Rightarrow> string"

section \<open>Resolving the persistence path\<close>

text \<open>The loop \<open>for cursor != nil\<close> of \<open>mongoPathFor\<close>; \<open>None\<close> is the early return.\<close>

fun mongoPathFor_loop ::
  "(Attribute \<Rightarrow> string \<Rightarrow> Attribute option) \<Rightarrow> Attribute \<Rightarrow> Expression option \<Rightarrow> Attribute option"
where
  "mongoPathFor_loop sub curAttr None = Some curAttr"
| "mongoPathFor_loop sub curAttr (Some (Expression tok nxt)) =
     (case sub curAttr tok of
        None \<Rightarrow> None
      | Some a \<Rightarrow> mongoPathFor_loop sub a nxt)"

definition mongoPathFor :: "('ast, 'q) mongoDB \<Rightarrow> string \<Rightarrow> string" where
  "mongoPathFor d path =
     (case CompilePath d path of
        Inl err \<Rightarrow> ''''
      | Inr cursor0 \<Rightarrow>
          (let cursor = (if Token cursor0 = schema_ID d then Next cursor0 else Some cursor0)
           in if cursor = None then ''''
              else (case mongoPathFor_loop (SubAttributeForName d) (superAttr d) cursor of
                      None \<Rightarrow> ''''
                    | Some curAttr \<Rightarrow>
                        (case metadataHub d (attr_ID curAttr) of
                           Some md \<Rightarrow> MongoPath md
                         | None \<Rightarrow> attr_Path curAttr))))"

section \<open>Sort, pagination, projection and filter parameters\<close>

definition mongoSort :: "('ast, 'q) mongoDB \<Rightarrow> Sort \<Rightarrow> bson_D outcome" where
  "mongoSort d srt =
     (let by0 = (if length (By srt) > 0 then mongoPathFor d (By srt) else '''');
          by = (if length by0 = 0 then ''_id'' else by0)
      in case Order srt of
           SortAsc \<Rightarrow> Returned [(by, 1)]
         | SortDefault \<Rightarrow> Returned [(by, 1)]
         | SortDesc \<Rightarrow> Returned [(by, - 1)]
         | SortInvalid v \<Rightarrow> Panicked ''invalid sort order'')"

definition mongoPagination :: "Pagination \<Rightarrow> int64 \<times> int64" where
  "mongoPagination pagination = (StartIndex pagination - 1, Count pagination)"

text \<open>
  Both loops of \<open>mongoProjection\<close> range over \<open>projection.Attributes\<close>, the second one
  too, as in the source.
\<close>

definition mongoProjection :: "('ast, 'q) mongoDB \<Rightarrow> Projection \<Rightarrow> bson_D" where
  "mongoProjection d projection =
     (if length (Attributes projection) > 0 then
        fold (\<lambda>p include.
                (let mp = mongoPathFor d p
                 in if length mp > 0 then include @ [(mp, 1)] else include))
             (Attributes projection) []
      else if length (ExcludedAttributes projection) > 0 then
        fold (\<lambda>p exclude.
                (let mp = mongoPathFor d p
                 in if length mp > 0 then exclude @ [(mp, 0)] else exclude))
             (Attributes projection) []
      else [])"

definition mongoFilter :: "('ast, 'q) mongoDB \<Rightarrow> string \<Rightarrow> error + 'q" where
  "mongoFilter d flt =
     (case CompileFilter d flt of
        Inl err \<Rightarrow> Inl err
      | Inr cf \<Rightarrow>
          (case transform d cf of
             Inl err \<Rightarrow> Inl err
           | Inr tf \<Rightarrow> Inr tf))"

definition errPrecondition :: "string \<Rightarrow> error" where
  "errPrecondition rid =
     PreConditionFailed
       (''resource by id ['' @ rid @ ''] does not exist, or another process has updated it since last read'')"

section \<open>The driver's collection\<close>

text \<open>
  The collection of the MongoDB driver is outside the repository. It is modelled by the
  behaviour that the driver documents: the stored documents in natural order, a
  connection fault that, when present, makes every command fail with that error, a
  unique index on the resource id, \<open>ErrNoDocuments\<close> when a single-document command
  matches nothing, a skip that must not be negative, and a limit where \<open>0\<close> means no limit
  and a negative value means its absolute value. A stored document is the resource that
  the BSON adapter wraps. How a query matches a document, how a sort document orders
  documents and what a projection document keeps are parameters.
\<close>

record 'q Collection =
  documents :: "Resource list"
  fault :: "error option"
  matches :: "'q \<Rightarrow> Resource \<Rightarrow> bool"
  order_by :: "bson_D \<Rightarrow> Resource list \<Rightarrow> Resource list"
  project :: "bson_D \<Rightarrow> Resource \<Rightarrow> Resource"

record FindOneOptions =
  one_Projection :: "bson_D option"

record FindOptions =
  opt_Sort :: "bson_D option"
  opt_Skip :: "int64 option"
  opt_Limit :: "int64 option"
  opt_Projection :: "bson_D option"

record Cursor =
  batch :: "Resource list"
  cursor_Err :: "error option"

definition InsertOne :: "'q Collection \<Rightarrow> Resource \<Rightarrow> 'q Collection \<times> (error + string)" where
  "InsertOne c doc =
     (case fault c of
        Some e \<Rightarrow> (c, Inl e)
      | None \<Rightarrow>
          if ID doc \<in> set (map ID (documents c)) then (c, Inl DuplicateKey)
          else (c\<lparr>documents := documents c @ [doc]\<rparr>, Inr (ID doc)))"

definition CountDocuments :: "'q Collection \<Rightarrow> 'q \<Rightarrow> int \<times> error option" where
  "CountDocuments c q =
     (case fault c of
        Some e \<Rightarrow> (0, Some e)
      | None \<Rightarrow> (int (length (filter (matches c q) (documents c))), None))"

definition FindOne :: "'q Collection \<Rightarrow> 'q \<Rightarrow> FindOneOptions \<Rightarrow> error + Resource" where
  "FindOne c q opt =
     (case fault c of
        Some e \<Rightarrow> Inl e
      | None \<Rightarrow>
          (case filter (matches c q) (documents c) of
             [] \<Rightarrow> Inl ErrNoDocuments
           | x # xs \<Rightarrow>
               Inr (case one_Projection opt of None \<Rightarrow> x | Some pd \<Rightarrow> project c pd x)))"

fun replace_first :: "('a \<Rightarrow> bool) \<Rightarrow> 'a \<Rightarrow> 'a list \<Rightarrow> 'a list" where
  "replace_first P y [] = []"
| "replace_first P y (x # xs) = (if P x then y # xs else x # replace_first P y xs)"

fun delete_first :: "('a \<Rightarrow> bool) \<Rightarrow> 'a list \<Rightarrow> 'a list" where
  "delete_first P [] = []"
| "delete_first P (x # xs) = (if P x then xs else x # delete_first P xs)"

definition FindOneAndReplace ::
  "'q Collection \<Rightarrow> 'q \<Rightarrow> Resource \<Rightarrow> 'q Collection \<times> error option" where
  "FindOneAndReplace c q doc =
     (case fault c of
        Some e \<Rightarrow> (c, Some e)
      | None \<Rightarrow>
          if list_ex (matches c q) (documents c)
          then (c\<lparr>documents := replace_first (matches c q) doc (documents c)\<rparr>, None)
          else (c, Some ErrNoDocuments))"

definition FindOneAndDelete :: "'q Collection \<Rightarrow> 'q \<Rightarrow> 'q Collection \<times> error option" where
  "FindOneAndDelete c q =
     (case fault c of
        Some e \<Rightarrow> (c, Some e)
      | None \<Rightarrow>
          if list_ex (matches c q) (documents c)
          then (c\<lparr>documents := delete_first (matches c q) (documents c)\<rparr>, None)
          else (c, Some ErrNoDocuments))"

definition apply_limit :: "int64 option \<Rightarrow> 'a list \<Rightarrow> 'a list" where
  "apply_limit limit xs =
     (case limit of
        None \<Rightarrow> xs
      | Some l \<Rightarrow> if l = 0 then xs else take (nat \<bar>sint l\<bar>) xs)"

definition ordered_matches :: "'q Collection \<Rightarrow> 'q \<Rightarrow> FindOptions \<Rightarrow> Resource list" where
  "ordered_matches c q opt =
     (let found = filter (matches c q) (documents c)
      in case opt_Sort opt of
           None \<Rightarrow> found
         | Some sd \<Rightarrow> order_by c sd found)"

definition apply_projection :: "'q Collection \<Rightarrow> FindOptions \<Rightarrow> Resource list \<Rightarrow> Resource list" where
  "apply_projection c opt xs =
     (case opt_Projection opt of
        None \<Rightarrow> xs
      | Some pd \<Rightarrow> map (project c pd) xs)"

definition Find :: "'q Collection \<Rightarrow> 'q \<Rightarrow> FindOptions \<Rightarrow> error + Cursor" where
  "Find c q opt =
     (case fault c of
        Some e \<Rightarrow> Inl e
      | None \<Rightarrow>
          (let skip = (case opt_Skip opt of None \<Rightarrow> 0 | Some s \<Rightarrow> sint s)
           in if skip < 0 then Inl (DriverError ''skip must be non-negative'')
              else
                Inr \<lparr>batch = apply_projection c opt
                               (apply_limit (opt_Limit opt)
                                  (drop (nat skip) (ordered_matches c q opt))),
                     cursor_Err = None\<rparr>))"

section \<open>The database operations\<close>

text \<open>
  Every operation takes the collection and, where it writes, returns the collection
  after the call.
\<close>

definition Insert ::
  "('ast, 'q) mongoDB \<Rightarrow> 'q Collection \<Rightarrow> Resource \<Rightarrow> 'q Collection \<times> error option" where
  "Insert d c resource =
     (case InsertOne c resource of
        (c', Inl err) \<Rightarrow> (c', None)
      | (c', Inr ior) \<Rightarrow> (c', None))"

definition Count_db :: "('ast, 'q) mongoDB \<Rightarrow> 'q Collection \<Rightarrow> string \<Rightarrow> int \<times> error option" where
  "Count_db d c flt =
     (case mongoFilter d flt of
        Inl err \<Rightarrow> (0, Some err)
      | Inr tf \<Rightarrow>
          (case CountDocuments c tf of
             (n, Some err) \<Rightarrow> (n, None)
           | (n, None) \<Rightarrow> (n, None)))"

definition Get_filter :: "('ast, 'q) mongoDB \<Rightarrow> string \<Rightarrow> string" where
  "Get_filter d rid = ''id eq '' @ Quote d rid"

definition Get_options :: "('ast, 'q) mongoDB \<Rightarrow> Projection option \<Rightarrow> FindOneOptions" where
  "Get_options d projection =
     (let opt = \<lparr>one_Projection = None\<rparr>
      in case projection of
           None \<Rightarrow> opt
         | Some p \<Rightarrow>
             if \<not> ignoreProjection d then opt\<lparr>one_Projection := Some (mongoProjection d p)\<rparr>
             else opt)"

definition Get ::
  "('ast, 'q) mongoDB \<Rightarrow> 'q Collection \<Rightarrow> string \<Rightarrow> Projection option \<Rightarrow> error + Resource" where
  "Get d c rid projection =
     (let opt = Get_options d projection
      in case mongoFilter d (Get_filter d rid) of
           Inl err \<Rightarrow> Inl err
         | Inr tf \<Rightarrow>
             (case FindOne c tf opt of
                Inl err \<Rightarrow>
                  if err = ErrNoDocuments
                  then Inl (NotFound (''resource by id ['' @ rid @ ''] does not exist''))
                  else Inl err
              | Inr raw \<Rightarrow>
                  (case Decode d raw of
                     Inl err \<Rightarrow> Inl err
                   | Inr resource \<Rightarrow> Inr resource)))"

definition id_version_filter :: "('ast, 'q) mongoDB \<Rightarrow> string \<Rightarrow> string \<Rightarrow> string" where
  "id_version_filter d rid version =
     ''(id eq '' @ Quote d rid @ '') and (meta.version eq '' @ Quote d version @ '')''"

definition Replace ::
  "('ast, 'q) mongoDB \<Rightarrow> 'q Collection \<Rightarrow> Resource \<Rightarrow> string \<Rightarrow> 'q Collection \<times> error option"
where
  "Replace d c resource oldVersion =
     (let rid = ID resource; version = Version resource
      in case mongoFilter d (id_version_filter d rid oldVersion) of
           Inl err \<Rightarrow> (c, Some err)
         | Inr tf \<Rightarrow>
             (case FindOneAndReplace c tf resource of
                (c', Some err) \<Rightarrow>
                  if err = ErrNoDocuments then (c', Some (errPrecondition rid))
                  else (c', Some err)
              | (c', None) \<Rightarrow> (c', None)))"

definition Delete ::
  "('ast, 'q) mongoDB \<Rightarrow> 'q Collection \<Rightarrow> Resource \<Rightarrow> 'q Collection \<times> error option" where
  "Delete d c resource =
     (let rid = ID resource; version = Version resource
      in case mongoFilter d (id_version_filter d rid version) of
           Inl err \<Rightarrow> (c, Some err)
         | Inr tf \<Rightarrow>
             (case FindOneAndDelete c tf of
                (c', Some err) \<Rightarrow>
                  if err = ErrNoDocuments then (c', Some (errPrecondition rid))
                  else (c', Some err)
              | (c', None) \<Rightarrow> (c', None)))"

text \<open>The find options that \<open>Query\<close> builds before it calls the driver.\<close>

definition Query_options ::
  "('ast, 'q) mongoDB \<Rightarrow> Sort option \<Rightarrow> Pagination option \<Rightarrow> Projection option
     \<Rightarrow> FindOptions outcome" where
  "Query_options d srt pagination projection =
     (let opt = \<lparr>opt_Sort = None, opt_Skip = None, opt_Limit = None, opt_Projection = None\<rparr>
      in case (case srt of
                 None \<Rightarrow> Returned opt
               | Some s \<Rightarrow>
                   (case mongoSort d s of
                      Panicked msg \<Rightarrow> Panicked msg
                    | Returned sd \<Rightarrow> Returned (opt\<lparr>opt_Sort := Some sd\<rparr>))) of
           Panicked msg \<Rightarrow> Panicked msg
         | Returned opt1 \<Rightarrow>
             (let opt2 = (case pagination of
                            None \<Rightarrow> opt1
                          | Some pg \<Rightarrow>
                              (case mongoPagination pg of
                                 (skip, limit) \<Rightarrow> opt1\<lparr>opt_Skip := Some skip, opt_Limit := Some limit\<rparr>));
                  opt3 = (case projection of
                            None \<Rightarrow> opt2
                          | Some p \<Rightarrow>
                              if \<not> ignoreProjection d
                              then opt2\<lparr>opt_Projection := Some (mongoProjection d p)\<rparr>
                              else opt2)
              in Returned opt3))"

text \<open>The loop \<open>for cursor.Next(ctx)\<close>: the first document that fails to decode ends it.\<close>

fun Query_loop ::
  "(Resource \<Rightarrow> error + Resource) \<Rightarrow> Resource list \<Rightarrow> Resource list \<Rightarrow> error + Resource list"
where
  "Query_loop dec [] results = Inr results"
| "Query_loop dec (x # xs) results =
     (case dec x of
        Inl err \<Rightarrow> Inl err
      | Inr r \<Rightarrow> Query_loop dec xs (results @ [r]))"

definition Query ::
  "('ast, 'q) mongoDB \<Rightarrow> 'q Collection \<Rightarrow> string \<Rightarrow> Sort option \<Rightarrow> Pagination option
     \<Rightarrow> Projection option \<Rightarrow> (error + Resource list) outcome" where
  "Query d c flt srt pagination projection =
     (case mongoFilter d flt of
        Inl err \<Rightarrow> Returned (Inl err)
      | Inr tf \<Rightarrow>
          (case Query_options d srt pagination projection of
             Panicked msg \<Rightarrow> Panicked msg
           | Returned opt \<Rightarrow>
               (case Find c tf opt of
                  Inl err \<Rightarrow> Returned (Inl err)
                | Inr cursor \<Rightarrow>
                    (case Query_loop (Decode d) (batch cursor) [] of
                       Inl err \<Rightarrow> Returned (Inl err)
                     | Inr results \<Rightarrow>
                         (case cursor_Err cursor of
                            Some err \<Rightarrow> Returned (Inl err)
                          | None \<Rightarrow> Returned (Inr results))))))"

section \<open>The get service (package services)\<close>

record GetRequest =
  req_Projection :: "Projection option"
  ResourceID :: string

record GetResponse =
  resp_Resource :: Resource
  resp_Location :: string
  resp_Version :: string

text \<open>
  \<open>GetService.Database\<close> is the interface \<open>db.DB\<close>; the service calls its \<open>Get\<close> only, so
  the service is modelled over that function.
\<close>

definition GetResource ::
  "(string \<Rightarrow> Projection option \<Rightarrow> error + Resource) \<Rightarrow> GetRequest \<Rightarrow> error + GetResponse" where
  "GetResource Database_Get request =
     (case Database_Get (ResourceID request) (req_Projection request) of
        Inl err \<Rightarrow> Inl err
      | Inr resource \<Rightarrow>
          Inr \<lparr>resp_Resource = resource,
               resp_Location = Location resource,
               resp_Version = Version resource\<rparr>)"

section \<open>The filter index (package stage)\<close>

text \<open>
  \<open>buildIndex\<close> keys two of its maps by the pointer \<open>*core.Attribute\<close>: an attribute is
  its address together with the field \<open>Id\<close> that the function reads. A property filter
  is the pair of its methods \<open>Supports\<close> and \<open>Order\<close>; Go's \<open>int\<close> is only compared here,
  so it is an integer.
\<close>

record core_Attribute =
  address :: nat
  Id :: string

record core_ResourceType =
  DerivedAttributes :: "core_Attribute list"

record PropertyFilter =
  Supports :: "core_Attribute \<Rightarrow> bool"
  Order_pf :: int

text \<open>The simultaneous assignment \<open>a[i], a[j] = a[j], a[i]\<close>.\<close>

definition swap :: "nat \<Rightarrow> nat \<Rightarrow> 'a list \<Rightarrow> 'a list" where
  "swap i j xs = xs[i := xs ! j, j := xs ! i]"

text \<open>
  The inner loop \<open>for j := i; j > 0; j--\<close> on the two arrays \<open>orders\<close> and \<open>filters\<close>;
  the argument \<open>Suc j\<close> is Go's \<open>j\<close>. Every index read is below \<open>i + 1\<close>, and the outer
  loop keeps \<open>i\<close> below the length.
\<close>

fun sort_inner :: "nat \<Rightarrow> int list \<times> 'f list \<Rightarrow> int list \<times> 'f list" where
  "sort_inner 0 (orders, filters) = (orders, filters)"
| "sort_inner (Suc j) (orders, filters) =
     sort_inner j
       (if orders ! j > orders ! Suc j
        then (swap j (Suc j) orders, swap j (Suc j) filters)
        else (orders, filters))"

definition sort_filters :: "PropertyFilter list \<Rightarrow> PropertyFilter list" where
  "sort_filters filters =
     (let orders = map Order_pf filters
      in snd (fold sort_inner [1 ..< length orders] (orders, filters)))"

text \<open>
  A Go map is an association list with distinct keys; \<open>range\<close> visits its entries in an
  order that the language leaves open. The two functions \<open>range_attributes\<close> and
  \<open>range_index\<close> give the order in which the loops over \<open>attributes\<close> and over \<open>index\<close>
  visit the entries.
\<close>

definition collect_attributes :: "core_ResourceType list \<Rightarrow> core_Attribute list" where
  "collect_attributes resourceTypes =
     fold (\<lambda>resourceType attributes.
             fold (\<lambda>attribute attributes. List.insert attribute attributes)
                  (DerivedAttributes resourceType) attributes)
          resourceTypes []"

definition collect_index ::
  "core_Attribute list \<Rightarrow> PropertyFilter list \<Rightarrow> (core_Attribute \<times> PropertyFilter list) list"
where
  "collect_index visited filters =
     fold (\<lambda>attribute index.
             fold (\<lambda>flt index.
                     if Supports flt attribute then
                       (let supported = (case map_of index attribute of
                                           None \<Rightarrow> []
                                         | Some s \<Rightarrow> s)
                        in AList.update attribute (supported @ [flt]) index)
                     else index)
                  filters index)
          visited []"

definition collect_result ::
  "(core_Attribute \<times> PropertyFilter list) list \<Rightarrow> (string \<rightharpoonup> PropertyFilter list)" where
  "collect_result visited =
     fold (\<lambda>(attribute, filters) result.
             result(Id attribute \<mapsto> (if length filters > 1 then sort_filters filters else filters)))
          visited Map.empty"

definition buildIndex ::
  "(core_Attribute list \<Rightarrow> core_Attribute list) \<Rightarrow>
   ((core_Attribute \<times> PropertyFilter list) list \<Rightarrow> (core_Attribute \<times> PropertyFilter list) list) \<Rightarrow>
   core_ResourceType list \<Rightarrow> PropertyFilter list \<Rightarrow> (string \<rightharpoonup> PropertyFilter list)" where
  "buildIndex range_attributes range_index resourceTypes filters =
     (let attributes = collect_attributes resourceTypes;
          index = collect_index (range_attributes attributes) filters
      in collect_result (range_index index))"

section \<open>The path walk, stated on token lists\<close>

text \<open>
  The description of the resolver speaks of the tokens of a path and of steps through the
  attribute tree. These two functions follow that description; the resolver of the
  adapter is compared with them below.
\<close>

fun tokens :: "Expression \<Rightarrow> string list" where
  "tokens (Expression tok nxt) = tok # (case nxt of None \<Rightarrow> [] | Some e \<Rightarrow> tokens e)"

fun walk_tokens ::
  "(Attribute \<Rightarrow> string \<Rightarrow> Attribute option) \<Rightarrow> Attribute \<Rightarrow> string list \<Rightarrow> Attribute option" where
  "walk_tokens sub a [] = Some a"
| "walk_tokens sub a (t # ts) = (case sub a t of None \<Rightarrow> None | Some b \<Rightarrow> walk_tokens sub b ts)"

section \<open>A small installation\<close>

text \<open>
  A resource type with a handful of attributes, one of them with a registered persistence
  path, a path compiler given by a table, and filters that compile to themselves. The
  closed theorems below are evaluated on it.
\<close>

definition ex_superAttr :: Attribute where
  "ex_superAttr =
     Attribute ''User'' ''User'' ''''
       [Attribute ''id'' ''id'' ''id'' [],
        Attribute ''urn:x:User:userName'' ''userName'' ''userName'' [],
        Attribute ''urn:x:User:name'' ''name'' ''name''
          [Attribute ''urn:x:User:name.familyName'' ''familyName'' ''name.familyName'' []],
        Attribute ''urn:x:User:groups'' ''groups'' ''groups''
          [Attribute ''urn:x:User:groups.$ref'' ''$ref'' ''groups.$ref'' []]]"

definition ex_CompilePath :: "string \<Rightarrow> error + Expression" where
  "ex_CompilePath path =
     (if path = ''userName'' then Inr (Expression ''userName'' None)
      else if path = ''urn:x:User:name.familyName'' then
        Inr (Expression ''urn:x:User'' (Some (Expression ''name'' (Some (Expression ''familyName'' None)))))
      else if path = ''groups.$ref'' then
        Inr (Expression ''groups'' (Some (Expression ''$ref'' None)))
      else if path = ''name.nickName'' then
        Inr (Expression ''name'' (Some (Expression ''nickName'' None)))
      else Inl (ScimError ''invalidPath'' path))"

definition ex_SubAttributeForName :: "Attribute \<Rightarrow> string \<Rightarrow> Attribute option" where
  "ex_SubAttributeForName a name = find (\<lambda>s. attr_Name s = name) (subAttributes a)"

definition ex_Quote :: "string \<Rightarrow> string" where
  "ex_Quote s = CHR 0x22 # s @ [CHR 0x22]"

definition ex_db :: "(string, string) mongoDB" where
  "ex_db =
     \<lparr>superAttr = ex_superAttr,
      schema_ID = ''urn:x:User'',
      ignoreProjection = False,
      CompilePath = ex_CompilePath,
      CompileFilter = (\<lambda>s. if s = [] then Inl (ScimError ''invalidFilter'' s) else Inr s),
      transform = Inr,
      SubAttributeForName = ex_SubAttributeForName,
      metadataHub = [''urn:x:User:groups.$ref'' \<mapsto> \<lparr>MongoName = ''ref'', MongoPath = ''groups.ref''\<rparr>],
      Decode = Inr,
      Quote = ex_Quote\<rparr>"

section \<open>Reading the operations\<close>

text \<open>
  The compiler of filters and the transformer are parameters, so what a compiled filter
  selects is stated where it is needed: \<open>selects d c flt P\<close> says that the filter string
  \<open>flt\<close> compiles and that the compiled query matches exactly those stored documents
  that satisfy \<open>P\<close>.
\<close>

definition selects ::
  "('ast, 'q) mongoDB \<Rightarrow> 'q Collection \<Rightarrow> string \<Rightarrow> (Resource \<Rightarrow> bool) \<Rightarrow> bool" where
  "selects d c flt P =
     (case mongoFilter d flt of
        Inl err \<Rightarrow> False
      | Inr tf \<Rightarrow> list_all (\<lambda>x. matches c tf x = P x) (documents c))"

text \<open>
  A page in the words of the contract: skip \<open>startIndex - 1\<close> entries, then keep at most
  \<open>count\<close>.
\<close>

definition page_of :: "'a list \<Rightarrow> Pagination \<Rightarrow> 'a list" where
  "page_of xs pg = take (nat (sint (Count pg))) (drop (nat (sint (StartIndex pg)) - 1) xs)"

text \<open>
  The union of the derived attributes of all resource types, the filters that support an
  attribute in load order, and what it means for a list \<open>v\<close> to be the list \<open>xs\<close> sorted
  ascending by \<open>Order\<close> with equal orders kept in their original position.
\<close>

definition derived_attributes :: "core_ResourceType list \<Rightarrow> core_Attribute set" where
  "derived_attributes resourceTypes = (\<Union>rt \<in> set resourceTypes. set (DerivedAttributes rt))"

definition supporting :: "PropertyFilter list \<Rightarrow> core_Attribute \<Rightarrow> PropertyFilter list" where
  "supporting filters a = filter (\<lambda>flt. Supports flt a) filters"

definition stable_sorted :: "PropertyFilter list \<Rightarrow> PropertyFilter list \<Rightarrow> bool" where
  "stable_sorted v xs =
     (sorted (map Order_pf v) \<and> mset v = mset xs \<and>
      (\<forall>flt \<in> set xs. filter (\<lambda>g. Order_pf g = Order_pf flt) v =
                         filter (\<lambda>g. Order_pf g = Order_pf flt) xs))"

text \<open>The bodies of the second and the third loop of \<open>buildIndex\<close>, named for the proofs.\<close>

definition index_step ::
  "core_Attribute \<Rightarrow> PropertyFilter \<Rightarrow> (core_Attribute \<times> PropertyFilter list) list
     \<Rightarrow> (core_Attribute \<times> PropertyFilter list) list" where
  "index_step attribute flt index =
     (if Supports flt attribute then
        (let supported = (case map_of index attribute of None \<Rightarrow> [] | Some s \<Rightarrow> s)
         in AList.update attribute (supported @ [flt]) index)
      else index)"

definition sorted_or_same :: "PropertyFilter list \<Rightarrow> PropertyFilter list" where
  "sorted_or_same fs = (if length fs > 1 then sort_filters fs else fs)"

definition result_step ::
  "core_Attribute \<times> PropertyFilter list \<Rightarrow> (string \<rightharpoonup> PropertyFilter list)
     \<Rightarrow> (string \<rightharpoonup> PropertyFilter list)" where
  "result_step = (\<lambda>(attribute, filters) result. result(Id attribute \<mapsto> sorted_or_same filters))"

section \<open>A small collection and a small filter chain\<close>

text \<open>
  Three stored users in a collection whose queries are the filter strings themselves:
  \<open>id pr\<close> matches every document, the two filters that the adapter formats match by id
  and by id and version. A second collection has lost its connection. The filter chain
  has four filters in load order over the attributes of two resource types that share
  the attribute \<open>id\<close>.
\<close>

definition ex_matches :: "string \<Rightarrow> Resource \<Rightarrow> bool" where
  "ex_matches q x =
     (q = ''id pr'' \<or>
      q = ''id eq '' @ ex_Quote (ID x) \<or>
      q = ''(id eq '' @ ex_Quote (ID x) @ '') and (meta.version eq '' @ ex_Quote (Version x) @ '')'')"

definition ex_project :: "bson_D \<Rightarrow> Resource \<Rightarrow> Resource" where
  "ex_project pd x = x\<lparr>properties := filter (\<lambda>kv. (fst kv, 1) \<in> set pd) (properties x)\<rparr>"

definition ex_alice :: Resource where
  "ex_alice = \<lparr>ID = ''a1'', Version = ''v1'', Location = ''/Users/a1'',
               properties = [(''userName'', ''alice''), (''nickName'', ''al'')]\<rparr>"

definition ex_bob :: Resource where
  "ex_bob = \<lparr>ID = ''b2'', Version = ''v7'', Location = ''/Users/b2'',
             properties = [(''userName'', ''bob'')]\<rparr>"

definition ex_carol :: Resource where
  "ex_carol = \<lparr>ID = ''c3'', Version = ''v2'', Location = ''/Users/c3'',
               properties = [(''userName'', ''carol'')]\<rparr>"

definition ex_alice2 :: Resource where
  "ex_alice2 = \<lparr>ID = ''a1'', Version = ''v2'', Location = ''/Users/a1'',
                properties = [(''userName'', ''alice''), (''nickName'', ''ally'')]\<rparr>"

definition ex_coll :: "string Collection" where
  "ex_coll =
     \<lparr>documents = [ex_alice, ex_bob, ex_carol],
      fault = None,
      matches = ex_matches,
      order_by = (\<lambda>sd xs. if sd = [(''_id'', - 1)] then rev xs else xs),
      project = ex_project\<rparr>"

definition ex_coll_down :: "string Collection" where
  "ex_coll_down = ex_coll\<lparr>fault := Some (DriverError ''connection refused'')\<rparr>"

definition ex_attr_id :: core_Attribute where "ex_attr_id = \<lparr>address = 1, Id = ''id''\<rparr>"
definition ex_attr_userName :: core_Attribute where "ex_attr_userName = \<lparr>address = 2, Id = ''userName''\<rparr>"
definition ex_attr_password :: core_Attribute where "ex_attr_password = \<lparr>address = 3, Id = ''password''\<rparr>"
definition ex_attr_displayName :: core_Attribute where "ex_attr_displayName = \<lparr>address = 4, Id = ''displayName''\<rparr>"

definition ex_resourceTypes :: "core_ResourceType list" where
  "ex_resourceTypes =
     [\<lparr>DerivedAttributes = [ex_attr_id, ex_attr_userName, ex_attr_password]\<rparr>,
      \<lparr>DerivedAttributes = [ex_attr_id, ex_attr_displayName]\<rparr>]"

definition ex_required :: PropertyFilter where
  "ex_required = \<lparr>Supports = (\<lambda>a. Id a = ''userName'' \<or> Id a = ''password''), Order_pf = 200\<rparr>"
definition ex_uuid :: PropertyFilter where
  "ex_uuid = \<lparr>Supports = (\<lambda>a. Id a = ''id''), Order_pf = 100\<rparr>"
definition ex_hash :: PropertyFilter where
  "ex_hash = \<lparr>Supports = (\<lambda>a. Id a = ''password''), Order_pf = 100\<rparr>"
definition ex_mutability :: PropertyFilter where
  "ex_mutability = \<lparr>Supports = (\<lambda>a. Id a = ''password'' \<or> Id a = ''id''), Order_pf = 200\<rparr>"

definition ex_filters :: "PropertyFilter list" where
  "ex_filters = [ex_required, ex_mutability, ex_uuid, ex_hash]"

lemmas ex_defs =
  ex_db_def ex_coll_def ex_coll_down_def ex_matches_def ex_Quote_def ex_project_def
  ex_alice_def ex_alice2_def ex_bob_def ex_carol_def
  ex_CompilePath_def ex_SubAttributeForName_def ex_superAttr_def

lemmas ex_index_defs =
  ex_resourceTypes_def ex_filters_def ex_attr_id_def ex_attr_userName_def ex_attr_password_def
  ex_attr_displayName_def ex_required_def ex_uuid_def ex_hash_def ex_mutability_def

section \<open>Properties of the path resolver\<close>

lemma loop_Some_tokens:
  "mongoPathFor_loop sub a (Some e) = walk_tokens sub a (tokens e)"
proof (induction e arbitrary: a)
  case (Expression tok nxt)
  show ?case
  proof (cases nxt)
    case None
    then show ?thesis by (simp split: option.splits)
  next
    case (Some e')
    then show ?thesis using Expression by (simp split: option.splits)
  qed
qed

lemma tokens_tl: "tl (tokens e) = (case Next e of None \<Rightarrow> [] | Some e' \<Rightarrow> tokens e')"
  by (cases e) simp

lemma tokens_ne: "tokens e \<noteq> []"
  by (cases e) simp

text \<open>
  Claim C6. For every path, \<open>mongoPathFor\<close> returns the empty string when the path does
  not compile. Otherwise it drops a leading token equal to the id of the resource type's
  schema and walks the remaining tokens from the super attribute, one sub-attribute per
  token. It returns the empty string when no token remains or when a step names no
  sub-attribute; when the walk ends at an attribute, it returns the \<open>MongoPath\<close> of the
  metadata registered under that attribute's id, and the attribute's own path when none
  is registered.
\<close>

theorem mongoPathFor_resolves:
  "(\<forall>err. CompilePath d path = Inl err \<longrightarrow> mongoPathFor d path = '''') \<and>
   (\<forall>e. CompilePath d path = Inr e \<longrightarrow>
      (let toks = (if Token e = schema_ID d then tl (tokens e) else tokens e) in
        (toks = [] \<longrightarrow> mongoPathFor d path = '''') \<and>
        (walk_tokens (SubAttributeForName d) (superAttr d) toks = None \<longrightarrow>
           mongoPathFor d path = '''') \<and>
        (\<forall>a. toks \<noteq> [] \<and> walk_tokens (SubAttributeForName d) (superAttr d) toks = Some a \<longrightarrow>
           mongoPathFor d path =
             (case metadataHub d (attr_ID a) of Some md \<Rightarrow> MongoPath md | None \<Rightarrow> attr_Path a))))"
  by (auto simp: mongoPathFor_def Let_def loop_Some_tokens tokens_tl tokens_ne split: sum.splits option.splits)

text \<open>
  The resolver on the small installation: an attribute with registered metadata, one
  without (reached through the schema's URN), a step that names no sub-attribute, and a
  path that does not compile.
\<close>

theorem mongoPathFor_resolves_witness:
  "CompilePath ex_db ''groups.$ref'' = Inr (Expression ''groups'' (Some (Expression ''$ref'' None))) \<and>
   mongoPathFor ex_db ''groups.$ref'' = ''groups.ref'' \<and>
   mongoPathFor ex_db ''urn:x:User:name.familyName'' = ''name.familyName'' \<and>
   mongoPathFor ex_db ''name.nickName'' = '''' \<and>
   mongoPathFor ex_db ''nonsense['' = ''''"
  using mongoPathFor_resolves [of ex_db "''groups.$ref''"]
        mongoPathFor_resolves [of ex_db "''urn:x:User:name.familyName''"]
        mongoPathFor_resolves [of ex_db "''name.nickName''"]
        mongoPathFor_resolves [of ex_db "''nonsense[''"]
  by (simp add: ex_db_def ex_CompilePath_def ex_SubAttributeForName_def ex_superAttr_def)

section \<open>Properties of the sort and projection builders\<close>

text \<open>
  Claim C9. For every projection whose \<open>Attributes\<close> list is empty and whose
  \<open>ExcludedAttributes\<close> list is not, \<open>mongoProjection\<close> returns the empty document: no
  excluded attribute occurs in it with the value \<open>0\<close>.
\<close>

theorem mongoProjection_excluded_only:
  assumes "Attributes p = []" and "ExcludedAttributes p \<noteq> []"
  shows "mongoProjection d p = [] \<and>
         (\<forall>a \<in> set (ExcludedAttributes p). (mongoPathFor d a, 0) \<notin> set (mongoProjection d p))"
  using assms by (simp add: mongoProjection_def)

text \<open>
  On the small installation \<open>userName\<close> resolves to a persistence path, and excluding it
  still yields the empty projection document.
\<close>

theorem mongoProjection_excluded_only_witness:
  "Attributes \<lparr>Attributes = [], ExcludedAttributes = [''userName'']\<rparr> = [] \<and>
   ExcludedAttributes \<lparr>Attributes = [], ExcludedAttributes = [''userName'']\<rparr> \<noteq> [] \<and>
   mongoPathFor ex_db ''userName'' = ''userName'' \<and>
   mongoProjection ex_db \<lparr>Attributes = [], ExcludedAttributes = [''userName'']\<rparr> = []"
  using mongoProjection_excluded_only
          [of "\<lparr>Attributes = [], ExcludedAttributes = [''userName'']\<rparr>" ex_db]
  by (simp add: mongoPathFor_def ex_db_def ex_CompilePath_def ex_SubAttributeForName_def ex_superAttr_def)

text \<open>
  Claim C10. For every sort parameter whose \<open>Order\<close> is the default, the ascending or the
  descending value, \<open>mongoSort\<close> returns a sort document of one field, with the value
  \<open>-1\<close> for descending and \<open>1\<close> otherwise; the field is \<open>_id\<close> whenever \<open>By\<close> is empty or
  does not resolve to a persistence path, and the resolved path otherwise. For any other
  \<open>Order\<close> value it panics.
\<close>

theorem mongoSort_result:
  "(Order s \<in> {SortDefault, SortAsc, SortDesc} \<longrightarrow>
      (\<exists>by v. mongoSort d s = Returned [(by, v)] \<and>
               v = (if Order s = SortDesc then - 1 else 1) \<and>
               by = (if By s = [] \<or> mongoPathFor d (By s) = [] then ''_id''
                     else mongoPathFor d (By s)))) \<and>
   (Order s \<notin> {SortDefault, SortAsc, SortDesc} \<longrightarrow> (\<exists>msg. mongoSort d s = Panicked msg))"
  by (cases "Order s") (auto simp: mongoSort_def Let_def)

text \<open>
  The four cases on the small installation: a resolved path sorted descending, an empty
  \<open>By\<close>, a \<open>By\<close> that does not resolve, and an invalid order.
\<close>

theorem mongoSort_result_witness:
  "mongoSort ex_db \<lparr>By = ''groups.$ref'', Order = SortDesc\<rparr> = Returned [(''groups.ref'', - 1)] \<and>
   mongoSort ex_db \<lparr>By = '''', Order = SortDefault\<rparr> = Returned [(''_id'', 1)] \<and>
   mongoSort ex_db \<lparr>By = ''name.nickName'', Order = SortAsc\<rparr> = Returned [(''_id'', 1)] \<and>
   mongoSort ex_db \<lparr>By = ''userName'', Order = SortInvalid ''up''\<rparr> = Panicked ''invalid sort order''"
  using mongoSort_result [of "\<lparr>By = ''groups.$ref'', Order = SortDesc\<rparr>" ex_db]
        mongoSort_result [of "\<lparr>By = '''', Order = SortDefault\<rparr>" ex_db]
        mongoSort_result [of "\<lparr>By = ''name.nickName'', Order = SortAsc\<rparr>" ex_db]
        mongoSort_result [of "\<lparr>By = ''userName'', Order = SortInvalid ''up''\<rparr>" ex_db]
  by (simp add: mongoSort_def mongoPathFor_def ex_db_def ex_CompilePath_def ex_SubAttributeForName_def ex_superAttr_def)

section \<open>Properties of the database operations\<close>

lemma replace_first_cong:
  "(\<And>x. x \<in> set xs \<Longrightarrow> P x = Q x) \<Longrightarrow> replace_first P y xs = replace_first Q y xs"
  by (induction xs) auto

lemma delete_first_cong:
  "(\<And>x. x \<in> set xs \<Longrightarrow> P x = Q x) \<Longrightarrow> delete_first P xs = delete_first Q xs"
  by (induction xs) auto

lemma selectsD:
  assumes "selects d c flt P"
  shows "\<exists>tf. mongoFilter d flt = Inr tf \<and> (\<forall>x \<in> set (documents c). matches c tf x = P x)"
  using assms by (auto simp: selects_def list_all_iff split: sum.splits)

lemma Replace_selected:
  assumes "fault c = None"
    and "selects d c (id_version_filter d (ID r) oldVersion) P"
  shows "Replace d c r oldVersion =
           (if \<exists>x \<in> set (documents c). P x
            then (c\<lparr>documents := replace_first P r (documents c)\<rparr>, None)
            else (c, Some (errPrecondition (ID r))))"
proof -
  from selectsD [OF assms(2)] obtain tf where tf: "mongoFilter d (id_version_filter d (ID r) oldVersion) = Inr tf"
    and m: "\<And>x. x \<in> set (documents c) \<Longrightarrow> matches c tf x = P x"
    by blast
  have ex: "list_ex (matches c tf) (documents c) = (\<exists>x \<in> set (documents c). P x)"
    using m by (auto simp: list_ex_iff)
  have rf: "replace_first (matches c tf) r (documents c) = replace_first P r (documents c)"
    using m by (rule replace_first_cong)
  show ?thesis
    using assms(1) by (simp add: Replace_def Let_def tf FindOneAndReplace_def ex rf)
qed

lemma Delete_selected:
  assumes "fault c = None"
    and "selects d c (id_version_filter d (ID r) (Version r)) P"
  shows "Delete d c r =
           (if \<exists>x \<in> set (documents c). P x
            then (c\<lparr>documents := delete_first P (documents c)\<rparr>, None)
            else (c, Some (errPrecondition (ID r))))"
proof -
  from selectsD [OF assms(2)] obtain tf where tf: "mongoFilter d (id_version_filter d (ID r) (Version r)) = Inr tf"
    and m: "\<And>x. x \<in> set (documents c) \<Longrightarrow> matches c tf x = P x"
    by blast
  have ex: "list_ex (matches c tf) (documents c) = (\<exists>x \<in> set (documents c). P x)"
    using m by (auto simp: list_ex_iff)
  have rf: "delete_first (matches c tf) (documents c) = delete_first P (documents c)"
    using m by (rule delete_first_cong)
  show ?thesis
    using assms(1) by (simp add: Delete_def Let_def tf FindOneAndDelete_def ex rf)
qed

text \<open>
  Claim C1. \<open>Replace\<close> queries the collection with the filter formatted from the
  resource's id and the supplied old version, \<open>Delete\<close> with the filter formatted from the
  resource's id and its current version. Whenever the driver runs the command and no
  stored document matches that query, both return the preCondition error of
  \<open>errPrecondition\<close>, which is not a notFound error, and leave the collection as it was.
  Where the compiled filter selects exactly the documents with that id and version, the
  operation succeeds if and only if such a document is stored, and then replaces or
  deletes the first one.
\<close>

theorem Replace_Delete_precondition:
  "(\<forall>tf. fault c = None \<and> mongoFilter d (id_version_filter d (ID r) oldVersion) = Inr tf \<and>
         \<not> list_ex (matches c tf) (documents c) \<longrightarrow>
      Replace d c r oldVersion = (c, Some (errPrecondition (ID r)))) \<and>
   (\<forall>tf. fault c = None \<and> mongoFilter d (id_version_filter d (ID r) (Version r)) = Inr tf \<and>
         \<not> list_ex (matches c tf) (documents c) \<longrightarrow>
      Delete d c r = (c, Some (errPrecondition (ID r)))) \<and>
   (fault c = None \<and>
    selects d c (id_version_filter d (ID r) oldVersion) (\<lambda>x. ID x = ID r \<and> Version x = oldVersion) \<longrightarrow>
      Replace d c r oldVersion =
        (if \<exists>x \<in> set (documents c). ID x = ID r \<and> Version x = oldVersion
         then (c\<lparr>documents :=
                   replace_first (\<lambda>x. ID x = ID r \<and> Version x = oldVersion) r (documents c)\<rparr>, None)
         else (c, Some (errPrecondition (ID r))))) \<and>
   (fault c = None \<and>
    selects d c (id_version_filter d (ID r) (Version r)) (\<lambda>x. ID x = ID r \<and> Version x = Version r) \<longrightarrow>
      Delete d c r =
        (if \<exists>x \<in> set (documents c). ID x = ID r \<and> Version x = Version r
         then (c\<lparr>documents :=
                   delete_first (\<lambda>x. ID x = ID r \<and> Version x = Version r) (documents c)\<rparr>, None)
         else (c, Some (errPrecondition (ID r))))) \<and>
   (\<forall>msg. errPrecondition (ID r) \<noteq> NotFound msg) \<and>
   (\<exists>msg. errPrecondition (ID r) = PreConditionFailed msg)"
proof (intro conjI impI allI)
  fix tf
  assume "fault c = None \<and> mongoFilter d (id_version_filter d (ID r) oldVersion) = Inr tf \<and>
          \<not> list_ex (matches c tf) (documents c)"
  then show "Replace d c r oldVersion = (c, Some (errPrecondition (ID r)))"
    by (simp add: Replace_def FindOneAndReplace_def)
next
  fix tf
  assume "fault c = None \<and> mongoFilter d (id_version_filter d (ID r) (Version r)) = Inr tf \<and>
          \<not> list_ex (matches c tf) (documents c)"
  then show "Delete d c r = (c, Some (errPrecondition (ID r)))"
    by (simp add: Delete_def FindOneAndDelete_def)
next
  assume "fault c = None \<and>
    selects d c (id_version_filter d (ID r) oldVersion) (\<lambda>x. ID x = ID r \<and> Version x = oldVersion)"
  then show "Replace d c r oldVersion =
        (if \<exists>x \<in> set (documents c). ID x = ID r \<and> Version x = oldVersion
         then (c\<lparr>documents :=
                   replace_first (\<lambda>x. ID x = ID r \<and> Version x = oldVersion) r (documents c)\<rparr>, None)
         else (c, Some (errPrecondition (ID r))))"
    by (intro Replace_selected) simp_all
next
  assume "fault c = None \<and>
    selects d c (id_version_filter d (ID r) (Version r)) (\<lambda>x. ID x = ID r \<and> Version x = Version r)"
  then show "Delete d c r =
        (if \<exists>x \<in> set (documents c). ID x = ID r \<and> Version x = Version r
         then (c\<lparr>documents :=
                   delete_first (\<lambda>x. ID x = ID r \<and> Version x = Version r) (documents c)\<rparr>, None)
         else (c, Some (errPrecondition (ID r))))"
    by (intro Delete_selected) simp_all
qed (simp_all add: errPrecondition_def)

text \<open>
  On the small collection \<open>a1\<close> is stored with version \<open>v1\<close>: replacing it against the
  stale version \<open>v0\<close> and deleting a copy that carries version \<open>v2\<close> both end in the
  preCondition error; replacing it against \<open>v1\<close> succeeds.
\<close>

theorem Replace_Delete_precondition_witness:
  "fault ex_coll = None \<and>
   selects ex_db ex_coll (id_version_filter ex_db (ID ex_alice2) ''v0'')
     (\<lambda>x. ID x = ID ex_alice2 \<and> Version x = ''v0'') \<and>
   selects ex_db ex_coll (id_version_filter ex_db (ID ex_alice2) (Version ex_alice2))
     (\<lambda>x. ID x = ID ex_alice2 \<and> Version x = Version ex_alice2) \<and>
   Replace ex_db ex_coll ex_alice2 ''v0'' = (ex_coll, Some (errPrecondition ''a1'')) \<and>
   Delete ex_db ex_coll ex_alice2 = (ex_coll, Some (errPrecondition ''a1'')) \<and>
   selects ex_db ex_coll (id_version_filter ex_db (ID ex_alice2) ''v1'')
     (\<lambda>x. ID x = ID ex_alice2 \<and> Version x = ''v1'') \<and>
   Replace ex_db ex_coll ex_alice2 ''v1'' =
     (ex_coll\<lparr>documents := [ex_alice2, ex_bob, ex_carol]\<rparr>, None)"
  using Replace_Delete_precondition
          [where c = ex_coll and d = ex_db and r = ex_alice2 and oldVersion = "''v0''"]
        Replace_Delete_precondition
          [where c = ex_coll and d = ex_db and r = ex_alice2 and oldVersion = "''v1''"]
  by (simp add: selects_def mongoFilter_def id_version_filter_def ex_defs)

text \<open>
  The two operations that log the driver's error and go on: \<open>Insert\<close> returns \<open>nil\<close> on
  every path, \<open>Count\<close> returns a \<open>nil\<close> error whenever the filter compiles.
\<close>

lemma Insert_returns_nil: "snd (Insert d c resource) = None"
  by (simp add: Insert_def split: prod.splits sum.splits)

lemma Count_db_returns_nil:
  "mongoFilter d flt = Inr tf \<Longrightarrow> snd (Count_db d c flt) = None"
  by (simp add: Count_db_def split: prod.splits option.splits)

text \<open>
  Claim C2. The claim asks \<open>Insert\<close> to return a uniqueness error when the id of the
  resource is already stored. The source logs the driver's error and returns \<open>nil\<close>:
  on the small collection the driver rejects a second document with the id \<open>a1\<close> with a
  duplicate-key error, and \<open>Insert\<close> reports success.
\<close>

theorem Insert_collision_returns_nil:
  "ID ex_alice2 \<in> ID ` set (documents ex_coll) \<and>
   InsertOne ex_coll ex_alice2 = (ex_coll, Inl DuplicateKey) \<and>
   Insert ex_db ex_coll ex_alice2 = (ex_coll, None)"
  by (simp add: Insert_def InsertOne_def ex_defs)

text \<open>
  Claim C3. The claim asks \<open>Count\<close> to return an error when the driver's count fails. The
  source logs the driver's error and returns the driver's number with a \<open>nil\<close> error: on
  the collection without connection the result is a count of zero and no error.
\<close>

theorem Count_failure_returns_nil:
  "CountDocuments ex_coll_down ''id pr'' = (0, Some (DriverError ''connection refused'')) \<and>
   Count_db ex_db ex_coll_down ''id pr'' = (0, None)"
  by (simp add: Count_db_def CountDocuments_def mongoFilter_def ex_defs)

lemma sint_pred:
  fixes x :: int64
  assumes "1 \<le> sint x"
  shows "sint (x - 1) = sint x - 1"
proof -
  have "sint x < 2 ^ 63"
    using sint_lt [of x] by simp
  then have "signed_take_bit 63 (sint x - 1) = sint x - 1"
    using assms by (intro signed_take_bit_int_eq_self) auto
  then show ?thesis
    by (simp add: sint_word_ariths)
qed

lemma Query_loop_Inr:
  "Query_loop dec xs acc = Inr rs \<Longrightarrow>
     map Inr rs = map Inr acc @ map dec xs \<and> length rs = length acc + length xs"
proof (induction xs arbitrary: acc)
  case Nil
  then show ?case by simp
next
  case (Cons x xs)
  then show ?case by (auto split: sum.splits)
qed

lemma Query_options_pagination:
  assumes "Query_options d srt (Some pg) projection = Returned opt"
  shows "opt_Skip opt = Some (StartIndex pg - 1) \<and> opt_Limit opt = Some (Count pg)"
  using assms
  by (auto simp: Query_options_def mongoPagination_def Let_def
           split: option.splits outcome.splits if_splits)

text \<open>
  Claim C5, as stated, fails where \<open>count\<close> is zero: the adapter passes the count as the
  driver's limit, and a limit of zero means no limit. A query for all three users with
  \<open>startIndex = 1\<close> and \<open>count = 0\<close> returns the three of them.
\<close>

theorem Query_count_zero_counterexample:
  "Query ex_db ex_coll ''id pr'' None (Some \<lparr>StartIndex = 1, Count = 0\<rparr>) None =
     Returned (Inr [ex_alice, ex_bob, ex_carol]) \<and>
   \<not> int (length [ex_alice, ex_bob, ex_carol]) \<le> sint (Count \<lparr>StartIndex = 1, Count = 0\<rparr>)"
  by (simp add: Query_def Query_options_def mongoPagination_def Find_def apply_limit_def
        apply_projection_def ordered_matches_def mongoFilter_def ex_defs)

text \<open>
  A start index below one has no page either: the skip \<open>startIndex - 1\<close> is negative, the
  driver rejects it, and \<open>Query\<close> returns the driver's error.
\<close>

lemma Query_startIndex_zero:
  "Query ex_db ex_coll ''id pr'' None (Some \<lparr>StartIndex = 0, Count = 2\<rparr>) None =
     Returned (Inl (DriverError ''skip must be non-negative''))"
  by (simp add: Query_def Query_options_def mongoPagination_def Find_def mongoFilter_def ex_defs)

text \<open>
  Claim C5, amended. For every pagination parameter with \<open>startIndex \<ge> 1\<close> and
  \<open>count \<ge> 1\<close>, \<open>Query\<close> passes the skip \<open>startIndex - 1\<close> and the limit \<open>count\<close> to the
  driver; when the filter compiles and the driver runs the command, the cursor holds the
  page of the matching documents, in sort order, that skips exactly \<open>startIndex - 1\<close> of
  them and keeps at most \<open>count\<close>, and every list of resources that \<open>Query\<close> returns is
  the decoding of that page and has at most \<open>count\<close> entries.
\<close>

theorem Query_pagination:
  assumes "1 \<le> sint (StartIndex pg)" and "1 \<le> sint (Count pg)"
    and "mongoFilter d flt = Inr tf" and "fault c = None"
    and "Query_options d srt (Some pg) projection = Returned opt"
  shows "opt_Skip opt = Some (StartIndex pg - 1) \<and> opt_Limit opt = Some (Count pg) \<and>
         Find c tf opt =
           Inr \<lparr>batch = apply_projection c opt (page_of (ordered_matches c tf opt) pg),
                cursor_Err = None\<rparr> \<and>
         Query d c flt srt (Some pg) projection =
           Returned (Query_loop (Decode d)
                       (apply_projection c opt (page_of (ordered_matches c tf opt) pg)) []) \<and>
         (\<forall>rs. Query d c flt srt (Some pg) projection = Returned (Inr rs) \<longrightarrow>
                int (length rs) \<le> sint (Count pg) \<and>
                map Inr rs =
                  map (Decode d) (apply_projection c opt (page_of (ordered_matches c tf opt) pg)))"
proof -
  let ?page = "apply_projection c opt (page_of (ordered_matches c tf opt) pg)"
  have so: "opt_Skip opt = Some (StartIndex pg - 1)" and lo: "opt_Limit opt = Some (Count pg)"
    using Query_options_pagination [OF assms(5)] by simp_all
  have skip: "sint (StartIndex pg - 1) = sint (StartIndex pg) - 1"
    using assms(1) by (rule sint_pred)
  have nz: "Count pg \<noteq> 0"
    using assms(2) by auto
  have nat_skip: "nat (sint (StartIndex pg) - 1) = nat (sint (StartIndex pg)) - 1"
    using assms(1) by simp
  have lim: "apply_limit (Some (Count pg)) xs = take (nat (sint (Count pg))) xs" for xs :: "Resource list"
    using assms(2) nz by (simp add: apply_limit_def)
  have F: "Find c tf opt = Inr \<lparr>batch = ?page, cursor_Err = None\<rparr>"
    using assms(1,4) by (simp add: Find_def so lo skip lim page_of_def nat_skip)
  have Q: "Query d c flt srt (Some pg) projection = Returned (Query_loop (Decode d) ?page [])"
    by (simp add: Query_def assms(3,5) F split: sum.splits)
  have len_page: "length ?page \<le> nat (sint (Count pg))"
    by (simp add: apply_projection_def page_of_def split: option.splits)
  have R: "int (length rs) \<le> sint (Count pg) \<and> map Inr rs = map (Decode d) ?page"
    if "Query d c flt srt (Some pg) projection = Returned (Inr rs)" for rs
  proof -
    from that Q have "Query_loop (Decode d) ?page [] = Inr rs" by simp
    from Query_loop_Inr [OF this] have "map Inr rs = map (Decode d) ?page" "length rs = length ?page"
      by simp_all
    then show ?thesis using len_page assms(2) by simp
  qed
  show ?thesis using so lo F Q R by blast
qed

text \<open>The second of the three stored users is the page with \<open>startIndex = 2\<close> and \<open>count = 1\<close>.\<close>

theorem Query_pagination_witness:
  "1 \<le> sint (StartIndex \<lparr>StartIndex = 2, Count = 1\<rparr>) \<and>
   1 \<le> sint (Count \<lparr>StartIndex = 2, Count = 1\<rparr>) \<and>
   mongoFilter ex_db ''id pr'' = Inr ''id pr'' \<and>
   fault ex_coll = None \<and>
   Query_options ex_db None (Some \<lparr>StartIndex = 2, Count = 1\<rparr>) None =
     Returned \<lparr>opt_Sort = None, opt_Skip = Some 1, opt_Limit = Some 1, opt_Projection = None\<rparr> \<and>
   Query ex_db ex_coll ''id pr'' None (Some \<lparr>StartIndex = 2, Count = 1\<rparr>) None =
     Returned (Inr [ex_bob])"
  using Query_pagination
          [where pg = "\<lparr>StartIndex = 2, Count = 1\<rparr>" and d = ex_db and flt = "''id pr''"
             and tf = "''id pr''" and c = ex_coll and srt = None and projection = None
             and opt = "\<lparr>opt_Sort = None, opt_Skip = Some 1, opt_Limit = Some 1,
                          opt_Projection = None\<rparr>"]
  by (simp add: Query_options_def mongoPagination_def mongoFilter_def page_of_def
        apply_projection_def ordered_matches_def ex_defs)

lemma FindOne_none:
  assumes "fault c = None" and "\<And>x. x \<in> set (documents c) \<Longrightarrow> \<not> matches c tf x"
  shows "FindOne c tf opt = Inl ErrNoDocuments"
proof -
  have "filter (matches c tf) (documents c) = []"
    using assms(2) by (simp add: filter_empty_conv)
  then show ?thesis using assms(1) by (simp add: FindOne_def)
qed

lemma Get_absent:
  assumes "fault c = None"
    and "selects d c (Get_filter d rid) (\<lambda>x. ID x = rid)"
    and "rid \<notin> ID ` set (documents c)"
  shows "Get d c rid projection = Inl (NotFound (''resource by id ['' @ rid @ ''] does not exist''))"
proof -
  from selectsD [OF assms(2)] obtain tf where tf: "mongoFilter d (Get_filter d rid) = Inr tf"
    and m: "\<And>x. x \<in> set (documents c) \<Longrightarrow> matches c tf x = (ID x = rid)"
    by blast
  have "FindOne c tf (Get_options d projection) = Inl ErrNoDocuments"
    using assms(1,3) m by (intro FindOne_none) auto
  then show ?thesis by (simp add: Get_def Let_def tf)
qed

text \<open>
  Claim C7. \<open>GetResource\<close> returns the error of the database's \<open>Get\<close> unchanged when that
  fails, and on success a response with the fetched resource and that resource's
  location and version. With the adapter's \<open>Get\<close> as the database, a request for an id
  that no stored document has ends in the notFound error, provided the driver runs the
  command and the compiled filter selects by id.
\<close>

theorem GetResource_result:
  "(\<forall>err. get (ResourceID req) (req_Projection req) = Inl err \<longrightarrow> GetResource get req = Inl err) \<and>
   (\<forall>r. get (ResourceID req) (req_Projection req) = Inr r \<longrightarrow>
      GetResource get req =
        Inr \<lparr>resp_Resource = r, resp_Location = Location r, resp_Version = Version r\<rparr>) \<and>
   (fault c = None \<and>
    selects d c (Get_filter d (ResourceID req)) (\<lambda>x. ID x = ResourceID req) \<and>
    ResourceID req \<notin> ID ` set (documents c) \<longrightarrow>
      GetResource (Get d c) req =
        Inl (NotFound (''resource by id ['' @ ResourceID req @ ''] does not exist'')))"
  using Get_absent [of c d "ResourceID req" "req_Projection req"]
  by (simp add: GetResource_def)

text \<open>
  On the small collection the id \<open>z9\<close> is not stored and the id \<open>b2\<close> is.
\<close>

theorem GetResource_result_witness:
  "fault ex_coll = None \<and>
   selects ex_db ex_coll (Get_filter ex_db ''z9'') (\<lambda>x. ID x = ''z9'') \<and>
   ''z9'' \<notin> ID ` set (documents ex_coll) \<and>
   GetResource (Get ex_db ex_coll) \<lparr>req_Projection = None, ResourceID = ''z9''\<rparr> =
     Inl (NotFound ''resource by id [z9] does not exist'') \<and>
   Get ex_db ex_coll ''b2'' None = Inr ex_bob \<and>
   GetResource (Get ex_db ex_coll) \<lparr>req_Projection = None, ResourceID = ''b2''\<rparr> =
     Inr \<lparr>resp_Resource = ex_bob, resp_Location = ''/Users/b2'', resp_Version = ''v7''\<rparr>"
  using GetResource_result
          [where get = "Get ex_db ex_coll" and c = ex_coll and d = ex_db
             and req = "\<lparr>req_Projection = None, ResourceID = ''z9''\<rparr>"]
        GetResource_result
          [where get = "Get ex_db ex_coll" and c = ex_coll and d = ex_db
             and req = "\<lparr>req_Projection = None, ResourceID = ''b2''\<rparr>"]
  by (simp add: selects_def mongoFilter_def Get_filter_def Get_def Get_options_def FindOne_def ex_defs)

text \<open>
  Claim C8. With \<open>ignoreProjection\<close> set, the options that \<open>Get\<close> and \<open>Query\<close> hand to the
  driver carry no projection whatever projection the caller supplies, and both
  operations return what they return without a projection.
\<close>

theorem ignoreProjection_full_fetch:
  assumes "ignoreProjection d"
  shows "one_Projection (Get_options d projection) = None \<and>
         Get d c rid projection = Get d c rid None \<and>
         (\<forall>opt. Query_options d srt pagination projection = Returned opt \<longrightarrow>
                opt_Projection opt = None) \<and>
         Query_options d srt pagination projection = Query_options d srt pagination None \<and>
         Query d c flt srt pagination projection = Query d c flt srt pagination None"
proof -
  have g: "Get_options d projection = Get_options d None"
    using assms by (simp add: Get_options_def Let_def split: option.splits)
  have q: "Query_options d srt pagination projection = Query_options d srt pagination None"
    using assms
    by (cases projection)
       (auto simp: Query_options_def Let_def split: outcome.splits option.splits)
  have n: "opt_Projection opt = None" if "Query_options d srt pagination None = Returned opt" for opt
    using that
    by (auto simp: Query_options_def Let_def split: option.splits outcome.splits prod.splits)
  have o: "one_Projection (Get_options d projection) = None"
    unfolding g by (simp add: Get_options_def)
  have G: "Get d c rid projection = Get d c rid None"
    unfolding Get_def g ..
  have Q: "Query d c flt srt pagination projection = Query d c flt srt pagination None"
    unfolding Query_def q ..
  show ?thesis
    using n by (simp add: o G Q q)
qed

text \<open>
  On the small collection a projection on \<open>userName\<close> drops the nickname of \<open>a1\<close>; with
  \<open>ignoreProjection\<close> set the same call returns the complete document.
\<close>

theorem ignoreProjection_full_fetch_witness:
  "ignoreProjection (ex_db\<lparr>ignoreProjection := True\<rparr>) \<and>
   Get (ex_db\<lparr>ignoreProjection := True\<rparr>) ex_coll ''a1''
       (Some \<lparr>Attributes = [''userName''], ExcludedAttributes = []\<rparr>) = Inr ex_alice \<and>
   Get ex_db ex_coll ''a1'' (Some \<lparr>Attributes = [''userName''], ExcludedAttributes = []\<rparr>) =
     Inr (ex_alice\<lparr>properties := [(''userName'', ''alice'')]\<rparr>)"
  using ignoreProjection_full_fetch
          [where d = "ex_db\<lparr>ignoreProjection := True\<rparr>" and c = ex_coll and rid = "''a1''"
             and projection = "Some \<lparr>Attributes = [''userName''], ExcludedAttributes = []\<rparr>"]
  by (simp add: mongoFilter_def Get_filter_def Get_def Get_options_def FindOne_def
        mongoProjection_def mongoPathFor_def ex_defs)

section \<open>Properties of the filter index\<close>

subsection \<open>The insertion sort\<close>

lemma swap_adjacent:
  "length pre = j \<Longrightarrow> swap j (Suc j) (pre @ a # b # post) = pre @ b # a # post"
  by (simp add: swap_def nth_append list_update_append)

lemma takeWhile_snoc_not: "\<not> P y \<Longrightarrow> takeWhile P (xs @ [y]) = takeWhile P xs"
  by (induction xs) auto

lemma dropWhile_snoc_not: "\<not> P y \<Longrightarrow> dropWhile P (xs @ [y]) = dropWhile P xs @ [y]"
  by (induction xs) auto

lemma sort_inner_insert:
  fixes f :: "'f \<Rightarrow> int"
  assumes "sorted (map f pre)" and "length pre = j"
  shows "sort_inner j (map f (pre @ x # post), pre @ x # post) =
           (map f (takeWhile (\<lambda>y. f y \<le> f x) pre @ x # dropWhile (\<lambda>y. f y \<le> f x) pre @ post),
            takeWhile (\<lambda>y. f y \<le> f x) pre @ x # dropWhile (\<lambda>y. f y \<le> f x) pre @ post)"
  using assms
proof (induction pre arbitrary: j x post rule: rev_induct)
  case Nil
  then show ?case by simp
next
  case (snoc y pre)
  from snoc.prems have j: "j = Suc (length pre)" by simp
  from snoc.prems have sorted_pre: "sorted (map f pre)"
    by (simp add: sorted_append)
  from snoc.prems have le_y: "\<And>z. z \<in> set pre \<Longrightarrow> f z \<le> f y"
    by (auto simp: sorted_append)
  have nth_y: "(map f pre @ f y # f x # map f post) ! length pre = f y"
    by (simp add: nth_append)
  have nth_x: "(map f pre @ f y # f x # map f post) ! Suc (length pre) = f x"
    by (simp add: nth_append)
  show ?case
  proof (cases "f y > f x")
    case True
    have sw1: "swap (length pre) (Suc (length pre)) (map f pre @ f y # f x # map f post) =
                 map f (pre @ x # y # post)"
      using swap_adjacent [of "map f pre" "length pre" "f y" "f x" "map f post"] by simp
    have sw2: "swap (length pre) (Suc (length pre)) (pre @ y # x # post) = pre @ x # y # post"
      by (rule swap_adjacent) simp
    have "sort_inner j (map f ((pre @ [y]) @ x # post), (pre @ [y]) @ x # post) =
            sort_inner (length pre) (map f (pre @ x # y # post), pre @ x # y # post)"
      using True by (simp add: j nth_y nth_x sw1 sw2)
    also have "\<dots> =
        (map f (takeWhile (\<lambda>y. f y \<le> f x) pre @ x # dropWhile (\<lambda>y. f y \<le> f x) pre @ y # post),
         takeWhile (\<lambda>y. f y \<le> f x) pre @ x # dropWhile (\<lambda>y. f y \<le> f x) pre @ y # post)"
      by (rule snoc.IH [OF sorted_pre refl])
    finally show ?thesis
      using True by (simp add: takeWhile_snoc_not dropWhile_snoc_not)
  next
    case False
    then have le: "f y \<le> f x" by simp
    have all_y: "\<forall>z \<in> set pre. f z \<le> f y" using le_y by blast
    have all_x: "\<forall>z \<in> set (pre @ [y]). f z \<le> f x" using le_y le by fastforce
    have "sort_inner j (map f ((pre @ [y]) @ x # post), (pre @ [y]) @ x # post) =
            sort_inner (length pre) (map f (pre @ y # x # post), pre @ y # x # post)"
      using False by (simp add: j nth_y nth_x)
    also have "\<dots> =
        (map f (takeWhile (\<lambda>z. f z \<le> f y) pre @ y # dropWhile (\<lambda>z. f z \<le> f y) pre @ x # post),
         takeWhile (\<lambda>z. f z \<le> f y) pre @ y # dropWhile (\<lambda>z. f z \<le> f y) pre @ x # post)"
      by (rule snoc.IH [OF sorted_pre refl])
    also have "\<dots> = (map f (pre @ y # x # post), pre @ y # x # post)"
    proof -
      have tw: "takeWhile (\<lambda>z. f z \<le> f y) pre = pre"
        and dw: "dropWhile (\<lambda>z. f z \<le> f y) pre = []"
        using all_y by (simp_all add: takeWhile_eq_all_conv)
      show ?thesis unfolding tw dw by simp
    qed
    finally have r: "sort_inner j (map f ((pre @ [y]) @ x # post), (pre @ [y]) @ x # post) =
                       (map f (pre @ y # x # post), pre @ y # x # post)" .
    have tw: "takeWhile (\<lambda>z. f z \<le> f x) (pre @ [y]) = pre @ [y]"
      and dw: "dropWhile (\<lambda>z. f z \<le> f x) (pre @ [y]) = []"
      using all_x by (simp_all add: takeWhile_eq_all_conv)
    show ?thesis unfolding tw dw using r by simp
  qed
qed

lemma dropWhile_sorted_gt:
  fixes f :: "'f \<Rightarrow> int"
  shows "sorted (map f xs) \<Longrightarrow> z \<in> set (dropWhile (\<lambda>y. f y \<le> c) xs) \<Longrightarrow> c < f z"
proof (induction xs)
  case Nil
  then show ?case by simp
next
  case (Cons a xs)
  show ?case
  proof (cases "f a \<le> c")
    case True
    with Cons show ?thesis by simp
  next
    case False
    with Cons.prems show ?thesis by auto
  qed
qed

lemma sort_key_snoc:
  fixes f :: "'f \<Rightarrow> int"
  shows "sort_key f (xs @ [x]) =
           takeWhile (\<lambda>y. f y \<le> f x) (sort_key f xs) @ x # dropWhile (\<lambda>y. f y \<le> f x) (sort_key f xs)"
    (is "_ = ?tw @ x # ?dw")
proof (rule properties_for_sort_key)
  show "mset (?tw @ x # ?dw) = mset (xs @ [x])"
  proof -
    have "mset ?tw + mset ?dw = mset xs"
      by (metis mset_append takeWhile_dropWhile_id mset_sort)
    then show ?thesis by simp
  qed
next
  have s: "sorted (map f (sort_key f xs))" by simp
  have tw_le: "\<And>z. z \<in> set ?tw \<Longrightarrow> f z \<le> f x" by (auto dest: set_takeWhileD)
  have dw_gt: "\<And>z. z \<in> set ?dw \<Longrightarrow> f x < f z" using dropWhile_sorted_gt [OF s] by blast
  have s1: "sorted (map f ?tw)" using s by (metis sorted_append map_append takeWhile_dropWhile_id)
  have s2: "sorted (map f ?dw)" using s by (metis sorted_append map_append takeWhile_dropWhile_id)
  show "sorted (map f (?tw @ x # ?dw))"
    using s1 s2 tw_le dw_gt by (fastforce simp: sorted_append)
  fix k
  assume "k \<in> set (?tw @ x # ?dw)"
  have st: "filter (\<lambda>z. f k = f z) ?tw @ filter (\<lambda>z. f k = f z) ?dw = filter (\<lambda>z. f k = f z) xs"
  proof -
    have "filter (\<lambda>z. f k = f z) ?tw @ filter (\<lambda>z. f k = f z) ?dw =
            filter (\<lambda>z. f k = f z) (sort_key f xs)"
      by (simp only: filter_append [symmetric] takeWhile_dropWhile_id)
    also have "\<dots> = filter (\<lambda>z. f z = f k) (sort_key f xs)"
      by (rule filter_cong) auto
    also have "\<dots> = filter (\<lambda>z. f z = f k) xs"
      by (rule sort_key_stable)
    also have "\<dots> = filter (\<lambda>z. f k = f z) xs"
      by (rule filter_cong) auto
    finally show ?thesis .
  qed
  show "filter (\<lambda>z. f k = f z) (?tw @ x # ?dw) = filter (\<lambda>z. f k = f z) (xs @ [x])"
  proof (cases "f k = f x")
    case True
    have "f k \<noteq> f z" if "z \<in> set ?dw" for z
      using dw_gt [OF that] True by simp
    then have "filter (\<lambda>z. f k = f z) ?dw = []"
      by (simp add: filter_empty_conv)
    then show ?thesis using st True by simp
  next
    case False
    then show ?thesis using st by simp
  qed
qed

lemma sort_outer:
  fixes f :: "'f \<Rightarrow> int"
  assumes "k \<le> length fs"
  shows "fold sort_inner [1 ..< k] (map f fs, fs) =
           (map f (sort_key f (take k fs) @ drop k fs), sort_key f (take k fs) @ drop k fs)"
  using assms
proof (induction k)
  case 0
  then show ?case by simp
next
  case (Suc k)
  show ?case
  proof (cases "k = 0")
    case True
    with Suc.prems obtain a rest where "fs = a # rest" by (cases fs) auto
    with True show ?thesis by simp
  next
    case False
    then have upt: "[1 ..< Suc k] = [1 ..< k] @ [k]" by simp
    from Suc.prems have k: "k < length fs" by simp
    let ?pre = "sort_key f (take k fs)"
    have dr: "drop k fs = fs ! k # drop (Suc k) fs"
      using k by (simp add: Cons_nth_drop_Suc)
    have tk: "take (Suc k) fs = take k fs @ [fs ! k]"
      using k by (simp add: take_Suc_conv_app_nth)
    have len: "length ?pre = k" using k by simp
    have "fold sort_inner [1 ..< Suc k] (map f fs, fs) =
            sort_inner k (map f (?pre @ fs ! k # drop (Suc k) fs), ?pre @ fs ! k # drop (Suc k) fs)"
      using Suc.IH k by (simp only: upt fold_append comp_apply fold_simps dr)
    also have "\<dots> =
        (map f (takeWhile (\<lambda>y. f y \<le> f (fs ! k)) ?pre @ fs ! k #
                  dropWhile (\<lambda>y. f y \<le> f (fs ! k)) ?pre @ drop (Suc k) fs),
         takeWhile (\<lambda>y. f y \<le> f (fs ! k)) ?pre @ fs ! k #
           dropWhile (\<lambda>y. f y \<le> f (fs ! k)) ?pre @ drop (Suc k) fs)"
      by (rule sort_inner_insert) (use k in simp_all)
    also have "\<dots> = (map f (sort_key f (take (Suc k) fs) @ drop (Suc k) fs),
                     sort_key f (take (Suc k) fs) @ drop (Suc k) fs)"
      by (simp add: tk sort_key_snoc)
    finally show ?thesis .
  qed
qed

lemma sort_filters_sort_key: "sort_filters fs = sort_key Order_pf fs"
  using sort_outer [of "length fs" fs Order_pf] by (simp add: sort_filters_def)

lemma sorted_or_same_sort_key: "sorted_or_same fs = sort_key Order_pf fs"
proof (cases "length fs > 1")
  case True
  then show ?thesis by (simp add: sorted_or_same_def sort_filters_sort_key)
next
  case False
  then have "fs = [] \<or> (\<exists>a. fs = [a])" by (cases fs) auto
  then show ?thesis using False by (auto simp: sorted_or_same_def)
qed

lemma stable_sorted_sort_key: "stable_sorted (sort_key Order_pf xs) xs"
  by (simp add: stable_sorted_def sort_key_stable)

subsection \<open>The three loops\<close>

lemma fold_insert_set: "set (fold List.insert xs acc) = set xs \<union> set acc"
  by (induction xs arbitrary: acc) auto

lemma fold_insert_distinct: "distinct acc \<Longrightarrow> distinct (fold List.insert xs acc)"
  by (induction xs arbitrary: acc) auto

lemma collect_attributes_fold_set:
  "set (fold (\<lambda>rt attrs. fold List.insert (DerivedAttributes rt) attrs) rts acc) =
     derived_attributes rts \<union> set acc"
  by (induction rts arbitrary: acc) (auto simp: derived_attributes_def fold_insert_set)

lemma collect_attributes_fold_distinct:
  "distinct acc \<Longrightarrow>
     distinct (fold (\<lambda>rt attrs. fold List.insert (DerivedAttributes rt) attrs) rts acc)"
  by (induction rts arbitrary: acc) (auto simp: fold_insert_distinct)

lemma set_collect_attributes: "set (collect_attributes rts) = derived_attributes rts"
  using collect_attributes_fold_set [of rts "[]"] by (simp add: collect_attributes_def)

lemma distinct_collect_attributes: "distinct (collect_attributes rts)"
  using collect_attributes_fold_distinct [of "[]" rts] by (simp add: collect_attributes_def)

lemma index_step_map_of:
  "map_of (fold (index_step a) fs idx) =
     (if supporting fs a = [] then map_of idx
      else (map_of idx)(a \<mapsto> (case map_of idx a of None \<Rightarrow> [] | Some s \<Rightarrow> s) @ supporting fs a))"
proof (induction fs arbitrary: idx)
  case Nil
  then show ?case by (simp add: supporting_def)
next
  case (Cons f fs)
  show ?case
  proof (cases "Supports f a")
    case True
    let ?prev = "case map_of idx a of None \<Rightarrow> [] | Some s \<Rightarrow> s"
    have m1: "map_of (index_step a f idx) = (map_of idx)(a \<mapsto> ?prev @ [f])"
      using True by (simp add: index_step_def update_conv')
    have "map_of (fold (index_step a) (f # fs) idx) =
            map_of (fold (index_step a) fs (index_step a f idx))"
      by simp
    also have "\<dots> =
        (if supporting fs a = [] then map_of (index_step a f idx)
         else (map_of (index_step a f idx))
                (a \<mapsto> (case map_of (index_step a f idx) a of None \<Rightarrow> [] | Some s \<Rightarrow> s) @
                       supporting fs a))"
      by (rule Cons.IH)
    also have "\<dots> = (map_of idx)(a \<mapsto> ?prev @ supporting (f # fs) a)"
      using True by (simp add: m1 supporting_def)
    finally show ?thesis
      using True by (simp add: supporting_def)
  next
    case False
    have "index_step a f idx = idx"
      using False by (simp add: index_step_def)
    then show ?thesis
      using False Cons.IH [of idx] by (simp add: supporting_def)
  qed
qed

lemma index_step_distinct:
  "distinct (map fst idx) \<Longrightarrow> distinct (map fst (fold (index_step a) fs idx))"
  by (induction fs arbitrary: idx) (auto simp: index_step_def Let_def distinct_update)

lemma collect_index_fold:
  assumes "distinct visited" and "\<forall>a \<in> set visited. map_of idx a = None"
  shows "map_of (fold (\<lambda>a. fold (index_step a) filters) visited idx) =
           (\<lambda>a. if a \<in> set visited \<and> supporting filters a \<noteq> []
                then Some (supporting filters a) else map_of idx a)"
  using assms
proof (induction visited arbitrary: idx)
  case Nil
  then show ?case by simp
next
  case (Cons v visited)
  let ?idx = "fold (index_step v) filters idx"
  have m: "map_of ?idx =
             (if supporting filters v = [] then map_of idx
              else (map_of idx)(v \<mapsto> supporting filters v))"
    using Cons.prems by (simp add: index_step_map_of)
  have "\<forall>a \<in> set visited. map_of ?idx a = None"
    using Cons.prems by (auto simp: m)
  with Cons.prems have "map_of (fold (\<lambda>a. fold (index_step a) filters) visited ?idx) =
           (\<lambda>a. if a \<in> set visited \<and> supporting filters a \<noteq> []
                then Some (supporting filters a) else map_of ?idx a)"
    by (intro Cons.IH) simp_all
  then show ?case
    using Cons.prems by (auto simp: m fun_eq_iff)
qed

lemma collect_index_fold_distinct:
  "distinct (map fst idx) \<Longrightarrow>
     distinct (map fst (fold (\<lambda>a. fold (index_step a) filters) visited idx))"
  by (induction visited arbitrary: idx) (auto simp: index_step_distinct)

lemma collect_index_unfold:
  "collect_index visited filters = fold (\<lambda>a. fold (index_step a) filters) visited []"
  by (simp add: collect_index_def index_step_def [abs_def])

lemma map_of_collect_index:
  "distinct visited \<Longrightarrow>
     map_of (collect_index visited filters) a =
       (if a \<in> set visited \<and> supporting filters a \<noteq> [] then Some (supporting filters a) else None)"
  using collect_index_fold [of visited "[]" filters]
  by (simp add: collect_index_unfold)

lemma distinct_collect_index: "distinct (map fst (collect_index visited filters))"
  using collect_index_fold_distinct [of "[]" filters visited] by (simp add: collect_index_unfold)

lemma set_collect_index:
  assumes "distinct visited"
  shows "(a, fs) \<in> set (collect_index visited filters) \<longleftrightarrow>
           a \<in> set visited \<and> supporting filters a \<noteq> [] \<and> fs = supporting filters a"
proof -
  have "(a, fs) \<in> set (collect_index visited filters) \<longleftrightarrow>
          map_of (collect_index visited filters) a = Some fs"
    using distinct_collect_index by (simp add: map_of_eq_Some_iff)
  then show ?thesis using assms by (auto simp: map_of_collect_index)
qed

lemma supporting_nonempty: "supporting filters a \<noteq> [] \<longleftrightarrow> (\<exists>flt \<in> set filters. Supports flt a)"
  by (auto simp: supporting_def filter_empty_conv)

lemma collect_result_unfold: "collect_result visited = fold result_step visited Map.empty"
  by (simp add: collect_result_def result_step_def sorted_or_same_def)

lemma result_dom: "dom (fold result_step xs m) = dom m \<union> (Id \<circ> fst) ` set xs"
  by (induction xs arbitrary: m) (auto simp: result_step_def)

lemma result_untouched:
  "k \<notin> (Id \<circ> fst) ` set xs \<Longrightarrow> fold result_step xs m k = m k"
  by (induction xs arbitrary: m) (auto simp: result_step_def)

lemma result_value:
  "fold result_step xs m k = Some v \<Longrightarrow>
     m k = Some v \<or> (\<exists>(a, fs) \<in> set xs. Id a = k \<and> v = sorted_or_same fs)"
proof (induction xs arbitrary: m)
  case Nil
  then show ?case by simp
next
  case (Cons x xs)
  obtain a fs where x: "x = (a, fs)" by (cases x)
  from Cons.prems have "fold result_step xs (m(Id a \<mapsto> sorted_or_same fs)) k = Some v"
    by (simp add: x result_step_def)
  from Cons.IH [OF this] show ?case
    by (auto simp: x split: if_splits)
qed

lemma result_inj:
  assumes "distinct (map fst xs)" and "inj_on Id (fst ` set xs)" and "(a, fs) \<in> set xs"
  shows "fold result_step xs m (Id a) = Some (sorted_or_same fs)"
  using assms
proof (induction xs arbitrary: m)
  case Nil
  then show ?case by simp
next
  case (Cons x xs)
  obtain b gs where x: "x = (b, gs)" by (cases x)
  show ?case
  proof (cases "(a, fs) = (b, gs)")
    case True
    have "Id a \<notin> (Id \<circ> fst) ` set xs"
    proof
      assume "Id a \<in> (Id \<circ> fst) ` set xs"
      then obtain y where y: "y \<in> set xs" "Id (fst y) = Id a" by auto
      with Cons.prems(2) have "fst y = a"
        by (auto simp: inj_on_def x True [symmetric] dest!: bspec [where x = "fst y"])
      with y Cons.prems(1) True show False by (auto simp: x)
    qed
    then show ?thesis
      using True by (simp add: x result_untouched) (simp add: result_step_def)
  next
    case False
    with Cons.prems(3) have in_xs: "(a, fs) \<in> set xs" by (auto simp: x)
    have "inj_on Id (fst ` set xs)"
      using Cons.prems(2) by (auto simp: inj_on_def)
    with Cons.prems(1) in_xs Cons.IH show ?thesis by simp
  qed
qed

text \<open>
  Claim C4. Whatever order the two \<open>range\<close> loops visit their maps in, the keys of the map
  that \<open>buildIndex\<close> returns are exactly the ids of the derived attributes that at least
  one filter supports. Every value is, for a derived attribute with that id, the list of
  the filters that support this attribute, sorted ascending by \<open>Order\<close> with filters of
  equal order in their load order. Where no two derived attributes share an id, every
  supported attribute finds its own list under its id.
\<close>

theorem buildIndex_sorted_by_order:
  assumes "\<And>ks. mset (range_attributes ks) = mset ks"
    and "\<And>kvs. mset (range_index kvs) = mset kvs"
  shows "dom (buildIndex range_attributes range_index resourceTypes filters) =
           Id ` {a \<in> derived_attributes resourceTypes. \<exists>flt \<in> set filters. Supports flt a} \<and>
         (\<forall>k v. buildIndex range_attributes range_index resourceTypes filters k = Some v \<longrightarrow>
            (\<exists>a \<in> derived_attributes resourceTypes.
               Id a = k \<and> stable_sorted v (supporting filters a))) \<and>
         (inj_on Id (derived_attributes resourceTypes) \<longrightarrow>
            (\<forall>a \<in> derived_attributes resourceTypes.
               (\<exists>flt \<in> set filters. Supports flt a) \<longrightarrow>
               (\<exists>v. buildIndex range_attributes range_index resourceTypes filters (Id a) = Some v \<and>
                    stable_sorted v (supporting filters a))))"
proof -
  let ?A = "collect_attributes resourceTypes"
  let ?V = "range_attributes ?A"
  let ?I = "collect_index ?V filters"
  let ?J = "range_index ?I"
  let ?R = "buildIndex range_attributes range_index resourceTypes filters"
  have R: "?R = fold result_step ?J Map.empty"
    by (simp add: buildIndex_def collect_result_unfold)
  have set_V: "set ?V = derived_attributes resourceTypes"
    using mset_eq_setD [OF assms(1) [of ?A]] by (simp add: set_collect_attributes)
  have dist_V: "distinct ?V"
    using mset_eq_imp_distinct_iff [OF assms(1) [of ?A]] by (simp add: distinct_collect_attributes)
  have set_J: "set ?J = set ?I"
    using mset_eq_setD [OF assms(2) [of ?I]] .
  have "mset (map fst ?J) = mset (map fst ?I)"
    using assms(2) [of ?I] by (metis mset_map)
  then have dist_J: "distinct (map fst ?J)"
    using mset_eq_imp_distinct_iff distinct_collect_index by blast
  have mem_J: "(a, fs) \<in> set ?J \<longleftrightarrow>
                 a \<in> derived_attributes resourceTypes \<and> (\<exists>flt \<in> set filters. Supports flt a) \<and>
                 fs = supporting filters a" for a fs
    using set_collect_index [OF dist_V] by (simp add: set_J set_V supporting_nonempty)
  have keys: "fst ` set ?J = {a \<in> derived_attributes resourceTypes. \<exists>flt \<in> set filters. Supports flt a}"
  proof (rule set_eqI)
    fix a
    have "a \<in> fst ` set ?J \<longleftrightarrow> (\<exists>fs. (a, fs) \<in> set ?J)" by force
    then show "a \<in> fst ` set ?J \<longleftrightarrow>
                 a \<in> {a \<in> derived_attributes resourceTypes. \<exists>flt \<in> set filters. Supports flt a}"
      by (simp add: mem_J)
  qed
  have dom_R: "dom ?R = Id ` {a \<in> derived_attributes resourceTypes. \<exists>flt \<in> set filters. Supports flt a}"
  proof -
    have "(Id \<circ> fst) ` set ?J = Id ` (fst ` set ?J)"
      by (rule image_comp [symmetric])
    then show ?thesis
      by (simp only: R result_dom keys dom_empty Un_empty_left)
  qed
  have val: "\<exists>a \<in> derived_attributes resourceTypes. Id a = k \<and> stable_sorted v (supporting filters a)"
    if "?R k = Some v" for k v
  proof -
    from that have "fold result_step ?J Map.empty k = Some v" by (simp add: R)
    from result_value [OF this] obtain a fs
      where "(a, fs) \<in> set ?J" "Id a = k" "v = sorted_or_same fs" by auto
    then show ?thesis
      by (auto simp: mem_J sorted_or_same_sort_key stable_sorted_sort_key)
  qed
  have inj: "\<exists>v. ?R (Id a) = Some v \<and> stable_sorted v (supporting filters a)"
    if i: "inj_on Id (derived_attributes resourceTypes)"
      and a: "a \<in> derived_attributes resourceTypes" "\<exists>flt \<in> set filters. Supports flt a" for a
  proof -
    have "inj_on Id (fst ` set ?J)"
      using i by (rule inj_on_subset) (auto simp: keys)
    moreover have "(a, supporting filters a) \<in> set ?J"
      using a by (simp add: mem_J)
    ultimately have "?R (Id a) = Some (sorted_or_same (supporting filters a))"
      using dist_J by (simp add: R result_inj)
    then show ?thesis
      by (simp add: sorted_or_same_sort_key stable_sorted_sort_key)
  qed
  show ?thesis
    using dom_R val inj by blast
qed

text \<open>
  The small filter chain, with both loops visiting their maps in reverse: \<open>password\<close> is
  supported by three filters, the one of order 100 comes first and the two of order 200
  keep their load order; \<open>displayName\<close> is supported by none and has no entry.
\<close>

theorem buildIndex_sorted_by_order_witness:
  "(\<forall>ks :: core_Attribute list. mset (rev ks) = mset ks) \<and>
   (\<forall>kvs :: (core_Attribute \<times> PropertyFilter list) list. mset (rev kvs) = mset kvs) \<and>
   buildIndex rev rev ex_resourceTypes ex_filters ''password'' =
     Some [ex_hash, ex_required, ex_mutability] \<and>
   buildIndex rev rev ex_resourceTypes ex_filters ''id'' = Some [ex_uuid, ex_mutability] \<and>
   buildIndex rev rev ex_resourceTypes ex_filters ''userName'' = Some [ex_required] \<and>
   buildIndex rev rev ex_resourceTypes ex_filters ''displayName'' = None"
  using buildIndex_sorted_by_order [of rev rev ex_resourceTypes ex_filters]
  by (simp add: buildIndex_def collect_attributes_def collect_index_def collect_result_def
        sort_filters_def swap_def ex_index_defs)

end
